theory Spec2Isabelle
  imports Main "HOL-Library.Word"
begin

unbundle bit_operations_syntax

section \<open>The media muxer binding (media/ndk/NdkMediaMuxer.cpp)\<close>

subsection \<open>Machine types, handles and memory\<close>

text \<open>
  The binding is a C surface: its integers have a width and its arguments are pointers.
  \<open>status_t\<close> (the engine's result) and \<open>media_status_t\<close> (the binding's result) are
  32-bit values, \<open>size_t\<close> and addresses are 64-bit (LP64). The caller's sample memory is
  a function from addresses to bytes.
\<close>

type_synonym status_t = "32 word"
type_synonym media_status_t = "32 word"
type_synonym size_t = "64 word"
type_synonym ptr = "64 word"
type_synonym memory = "ptr \<Rightarrow> 8 word"

definition nullptr :: ptr where
  "nullptr = 0"

definition AMEDIA_OK :: media_status_t where
  "AMEDIA_OK = 0"

text \<open>
  \<open>struct AMediaMuxer { sp<MediaMuxerBase> mImpl; }\<close>: a handle wraps its engine. The
  engine's state has the opaque type \<open>'e\<close>. \<open>AMediaMuxer_new\<close> below never returns a
  handle whose \<open>mImpl\<close> is null, so the field holds an engine.
\<close>

record 'e AMediaMuxer =
  mImpl :: 'e

text \<open>
  The handles a process holds: a store from addresses to handle objects. A pointer
  argument is an address; \<open>nullptr\<close> is never allocated.
\<close>

type_synonym 'e handles = "ptr \<rightharpoonup> 'e AMediaMuxer"

text \<open>
  What C++ leaves undefined is a value of the model: dereferencing the null handle, and
  using an address that holds no live handle.
\<close>

datatype fault = NullPointerDereference | DanglingPointer

definition deref :: "'e handles \<Rightarrow> ptr \<Rightarrow> fault + 'e AMediaMuxer" where
  "deref h p =
     (if p = nullptr then Inl NullPointerDereference
      else case h p of None \<Rightarrow> Inl DanglingPointer | Some m \<Rightarrow> Inr m)"

subsection \<open>Construction and destruction\<close>

text \<open>
  \<open>AMediaMuxer_new(fd, format)\<close>. \<open>mData\<close> is what \<open>new (std::nothrow)\<close> returned
  (\<open>nullptr\<close> when the allocation failed), \<open>create\<close> is \<open>MediaMuxer::create\<close>, which
  gives no engine on failure. On either failure the result is the null handle and the
  store is as before (the object allocated is deleted again).
\<close>

definition AMediaMuxer_new ::
  "('fd \<Rightarrow> 'fmt \<Rightarrow> 'e option) \<Rightarrow> 'e handles \<Rightarrow> ptr \<Rightarrow> 'fd \<Rightarrow> 'fmt \<Rightarrow> ptr \<times> 'e handles" where
  "AMediaMuxer_new create h mData fd format =
     (if mData = nullptr then (nullptr, h)
      else case create fd format of
             None \<Rightarrow> (nullptr, h)
           | Some e \<Rightarrow> (mData, h(mData \<mapsto> \<lparr>mImpl = e\<rparr>)))"

text \<open>
  \<open>AMediaMuxer_delete(muxer)\<close>: \<open>delete muxer; return AMEDIA_OK;\<close>. Deleting the null
  pointer does nothing; deleting a live handle removes it from the store (and drops its
  reference to the engine); deleting anything else is undefined in C++.
\<close>

definition AMediaMuxer_delete :: "'e handles \<Rightarrow> ptr \<Rightarrow> fault + (media_status_t \<times> 'e handles)" where
  "AMediaMuxer_delete h muxer =
     (if muxer = nullptr then Inr (AMEDIA_OK, h)
      else case h muxer of
             None \<Rightarrow> Inl DanglingPointer
           | Some m \<Rightarrow> Inr (AMEDIA_OK, h(muxer := None)))"

subsection \<open>Writing a sample\<close>

text \<open>
  \<open>AMediaCodecBufferInfo\<close> is declared in NdkMediaCodec.h, which is not among the
  sources: \<open>int32_t offset; int32_t size; int64_t presentationTimeUs; uint32_t flags\<close>.
  The two signed fields are read with \<open>sint\<close>. (\<open>size\<close> is a constant of HOL, hence the
  prime.)
\<close>

record AMediaCodecBufferInfo =
  offset :: "32 word"
  size' :: "32 word"
  presentationTimeUs :: "64 word"
  flags :: "32 word"

text \<open>
  \<open>ABuffer\<close> belongs to the foundation library and is not among the sources. The binding
  constructs one around a pointer, \<open>new ABuffer(data, capacity)\<close>, and nothing in the
  binding copies a byte: the buffer is the \<open>capacity\<close> bytes that start at \<open>data\<close> in
  the caller's memory. What a reader finds in it, \<open>ABuffer_bytes\<close>, is read from that
  memory when it reads.
\<close>

record ABuffer =
  base :: ptr
  capacity :: size_t

definition ABuffer_new :: "ptr \<Rightarrow> size_t \<Rightarrow> ABuffer" where
  "ABuffer_new data cap = \<lparr>base = data, capacity = cap\<rparr>"

definition ABuffer_bytes :: "memory \<Rightarrow> ABuffer \<Rightarrow> 8 word list" where
  "ABuffer_bytes mem buf = map (\<lambda>i. mem (base buf + of_nat i)) [0..<unat (capacity buf)]"

text \<open>
  \<open>AMediaMuxer_writeSampleData(muxer, trackIdx, data, info)\<close>:
  \<^verbatim>\<open>
    sp<ABuffer> buf = new ABuffer((void*)(data + info->offset), info->size);
    return translate_error(
        muxer->mImpl->writeSampleData(buf, trackIdx, info->presentationTimeUs, info->flags));
  \<close>
  \<open>translate_error\<close> (NdkMediaError) and the engine's virtual \<open>writeSampleData\<close> are not
  among the sources and are parameters. The engine method takes its state, the memory it
  reads the buffer from and the four arguments, and returns its status with its new
  state. \<open>data + info->offset\<close> is pointer arithmetic with a signed 32-bit offset;
  \<open>info->size\<close> converts from \<open>int32_t\<close> to \<open>size_t\<close>, which extends the sign.
\<close>

definition AMediaMuxer_writeSampleData ::
  "(status_t \<Rightarrow> media_status_t) \<Rightarrow>
   ('e \<Rightarrow> memory \<Rightarrow> ABuffer \<Rightarrow> size_t \<Rightarrow> 64 word \<Rightarrow> 32 word \<Rightarrow> status_t \<times> 'e) \<Rightarrow>
   memory \<Rightarrow> 'e handles \<Rightarrow> ptr \<Rightarrow> size_t \<Rightarrow> ptr \<Rightarrow> AMediaCodecBufferInfo \<Rightarrow>
   fault + (media_status_t \<times> 'e handles)" where
  "AMediaMuxer_writeSampleData translate_error writeSampleData mem h muxer trackIdx data info =
     (case deref h muxer of
        Inl f \<Rightarrow> Inl f
      | Inr m \<Rightarrow>
          (let buf = ABuffer_new (data + scast (offset info)) (scast (size' info))
           in case writeSampleData (mImpl m) mem buf trackIdx (presentationTimeUs info) (flags info) of
                (err, e') \<Rightarrow> Inr (translate_error err, h(muxer \<mapsto> m\<lparr>mImpl := e'\<rparr>))))"

text \<open>
  An engine to run the binding on: its state is the list of samples written so far (the
  buffer it was handed, the bytes it read from it, track, time, flags), and it accepts
  every sample with status 0.
\<close>

type_synonym recorded = "(ABuffer \<times> 8 word list \<times> size_t \<times> 64 word \<times> 32 word) list"

definition recording_writeSampleData ::
  "recorded \<Rightarrow> memory \<Rightarrow> ABuffer \<Rightarrow> size_t \<Rightarrow> 64 word \<Rightarrow> 32 word \<Rightarrow> status_t \<times> recorded" where
  "recording_writeSampleData e mem buf trackIdx timeUs fl =
     (0, e @ [(buf, ABuffer_bytes mem buf, trackIdx, timeUs, fl)])"

subsection \<open>Setting the location\<close>

text \<open>
  \<open>AMediaMuxer_setLocation(muxer, latitude, longtitude)\<close>:
  \<^verbatim>\<open>
    return translate_error(muxer->mImpl->setLocation(latitude * 10000, longtitude * 10000));
  \<close>
  The two arguments are \<open>float\<close>. In \<open>latitude * 10000\<close> the \<open>int\<close> 10000 is converted
  to \<open>float\<close> and the product is a \<open>float\<close>, computed in single precision and rounded
  to the nearest value, ties to even. The engine's \<open>setLocation\<close> takes two \<open>int\<close>, so
  each product is converted implicitly, which drops its fraction; the conversion is
  undefined when the integer part does not fit an \<open>int\<close>.

  A \<open>float\<close> is its 32 bits (sign, 8 bits of exponent, 23 bits of fraction). Decoded it
  is a NaN, an infinity, or a finite value \<open>Finite s m e\<close>, which stands for
  \<open>m * 2 ^ e\<close>, negated when \<open>s\<close>.
\<close>

datatype binary32 = Finite bool nat int | Infinite bool | NaN

definition float_decode :: "32 word \<Rightarrow> binary32" where
  "float_decode w =
     (let s = (w AND 0x80000000 \<noteq> 0);
          E = unat (drop_bit 23 w AND 0xFF);
          F = unat (w AND 0x7FFFFF)
      in if E = 255 then (if F = 0 then Infinite s else NaN)
         else if E = 0 then Finite s F (- 149)
         else Finite s (2 ^ 23 + F) (int E - 150))"

text \<open>The number of bits of a natural number: \<open>bitlen 0 = 0\<close>, \<open>bitlen 5 = 3\<close>.\<close>

fun bitlen :: "nat \<Rightarrow> nat" where
  "bitlen n = (if n = 0 then 0 else Suc (bitlen (n div 2)))"

declare bitlen.simps [simp del]

text \<open>
  Rounding \<open>M * 2 ^ E\<close> to single precision. The result has the exponent \<open>q\<close> that leaves
  24 bits of significand, and not less than \<open>- 149\<close>, the exponent of the subnormal
  values. If \<open>q \<le> E\<close> the value is representable as it is. Otherwise the low \<open>q - E\<close>
  bits of \<open>M\<close> are rounded away: up when they are more than half a unit of the last
  place, or exactly half and the significand kept is odd. A significand rounded up to
  \<open>2 ^ 24\<close> takes the next exponent, and a value beyond the largest finite one
  (exponent above 104) is an infinity.
\<close>

definition round_binary32 :: "bool \<Rightarrow> nat \<Rightarrow> int \<Rightarrow> binary32" where
  "round_binary32 s M E =
     (let q = max (E + int (bitlen M) - 24) (- 149) in
      if q \<le> E then
        (if 104 < q then Infinite s else Finite s (M * 2 ^ nat (E - q)) q)
      else
        (let d = nat (q - E);
             m = M div 2 ^ d;
             r = M mod 2 ^ d;
             half = 2 ^ (d - 1);
             m' = (if half < r \<or> (r = half \<and> odd m) then m + 1 else m)
         in if m' = 2 ^ 24 then (if 104 < q + 1 then Infinite s else Finite s (2 ^ 23) (q + 1))
            else if 104 < q then Infinite s
            else Finite s m' q))"

text \<open>
  The product of two \<open>float\<close>: a NaN with a NaN, zero times infinity is a NaN, and the
  exact product of two finite values is rounded.
\<close>

fun fmul :: "binary32 \<Rightarrow> binary32 \<Rightarrow> binary32" where
  "fmul NaN y = NaN"
| "fmul (Finite s m e) NaN = NaN"
| "fmul (Infinite s) NaN = NaN"
| "fmul (Finite s1 m1 e1) (Finite s2 m2 e2) = round_binary32 (s1 \<noteq> s2) (m1 * m2) (e1 + e2)"
| "fmul (Finite s1 m1 e1) (Infinite s2) = (if m1 = 0 then NaN else Infinite (s1 \<noteq> s2))"
| "fmul (Infinite s1) (Finite s2 m2 e2) = (if m2 = 0 then NaN else Infinite (s1 \<noteq> s2))"
| "fmul (Infinite s1) (Infinite s2) = Infinite (s1 \<noteq> s2)"

text \<open>The conversion of an \<open>int\<close> to \<open>float\<close>, as of the literal 10000.\<close>

definition float_of_int :: "int \<Rightarrow> binary32" where
  "float_of_int k = round_binary32 (k < 0) (nat \<bar>k\<bar>) 0"

text \<open>
  The conversion of a \<open>float\<close> to \<open>int\<close>: the value without its fraction, where that is an
  \<open>int\<close>; undefined in C++ otherwise, and for an infinity and a NaN.
\<close>

datatype location_fault = BadHandle fault | UnrepresentableInt

definition float_to_int :: "binary32 \<Rightarrow> location_fault + 32 word" where
  "float_to_int x =
     (case x of
        Finite s m e \<Rightarrow>
          (let k = (if 0 \<le> e then int m * 2 ^ nat e else int m div 2 ^ nat (- e));
               v = (if s then - k else k)
           in if - (2 ^ 31) \<le> v \<and> v < 2 ^ 31 then Inr (word_of_int v) else Inl UnrepresentableInt)
      | Infinite s \<Rightarrow> Inl UnrepresentableInt
      | NaN \<Rightarrow> Inl UnrepresentableInt)"

text \<open>
  The binding. \<open>translate_error\<close> and the engine's virtual \<open>setLocation(int, int)\<close> are
  parameters, as for \<open>writeSampleData\<close>.
\<close>

definition AMediaMuxer_setLocation ::
  "(status_t \<Rightarrow> media_status_t) \<Rightarrow> ('e \<Rightarrow> 32 word \<Rightarrow> 32 word \<Rightarrow> status_t \<times> 'e) \<Rightarrow>
   'e handles \<Rightarrow> ptr \<Rightarrow> 32 word \<Rightarrow> 32 word \<Rightarrow>
   location_fault + (media_status_t \<times> 'e handles)" where
  "AMediaMuxer_setLocation translate_error setLocation h muxer latitude longtitude =
     (case deref h muxer of
        Inl f \<Rightarrow> Inl (BadHandle f)
      | Inr m \<Rightarrow>
          (case float_to_int (fmul (float_decode latitude) (float_of_int 10000)) of
             Inl f \<Rightarrow> Inl f
           | Inr lat \<Rightarrow>
               (case float_to_int (fmul (float_decode longtitude) (float_of_int 10000)) of
                  Inl f \<Rightarrow> Inl f
                | Inr lon \<Rightarrow>
                    (case setLocation (mImpl m) lat lon of
                       (err, e') \<Rightarrow> Inr (translate_error err, h(muxer \<mapsto> m\<lparr>mImpl := e'\<rparr>))))))"

text \<open>An engine that keeps the locations it was given, and accepts each with status 0.\<close>

definition recording_setLocation ::
  "(32 word \<times> 32 word) list \<Rightarrow> 32 word \<Rightarrow> 32 word \<Rightarrow> status_t \<times> (32 word \<times> 32 word) list" where
  "recording_setLocation e lat lon = (0, e @ [(lat, lon)])"

text \<open>
  Two readings of an integer \<open>n\<close> against a \<open>float\<close> \<open>x\<close>, in integer arithmetic.
  \<open>truncation_of x n\<close>: \<open>n\<close> is \<open>x\<close> without its fraction, that is, \<open>n\<close> has the sign of
  \<open>x\<close> and \<open>\<bar>n\<bar> \<le> \<bar>x\<bar> < \<bar>n\<bar> + 1\<close>.
  \<open>fixed_point_4 x n\<close>: \<open>n\<close> is \<open>x\<close> in fixed point with its four decimal digits, that
  is, \<open>n / 10000\<close> is \<open>x\<close> rounded to four decimals: \<open>\<bar>n - 10000 * x\<bar> \<le> 1 / 2\<close>.
\<close>

definition truncation_of :: "binary32 \<Rightarrow> int \<Rightarrow> bool" where
  "truncation_of x n =
     (case x of
        Finite s m e \<Rightarrow>
          (if s then n \<le> 0 else 0 \<le> n) \<and>
          (if 0 \<le> e then \<bar>n\<bar> = int m * 2 ^ nat e
           else \<bar>n\<bar> * 2 ^ nat (- e) \<le> int m \<and> int m < (\<bar>n\<bar> + 1) * 2 ^ nat (- e))
      | Infinite s \<Rightarrow> False
      | NaN \<Rightarrow> False)"

definition fixed_point_4 :: "binary32 \<Rightarrow> int \<Rightarrow> bool" where
  "fixed_point_4 x n =
     (case x of
        Finite s m e \<Rightarrow>
          (let v = (if s then - int m else int m) * 10000
           in if 0 \<le> e then n = v * 2 ^ nat e
              else 2 * \<bar>n * 2 ^ nat (- e) - v\<bar> \<le> 2 ^ nat (- e))
      | Infinite s \<Rightarrow> False
      | NaN \<Rightarrow> False)"

section \<open>The media extractor service package (services/mediaextractor/Android.bp)\<close>

text \<open>
  The build descriptor is data: a list of modules, each a module type with its
  properties. A property's value is a string, a list of strings or a map of properties
  (the \<open>arch\<close> block, whose entries are the per-architecture variants).
\<close>

datatype bp_value = BpString string | BpList "string list" | BpMap "(string \<times> bp_value) list"

datatype bp_module = Module (module_type: string) (properties: "(string \<times> bp_value) list")

definition bp_property :: "string \<Rightarrow> bp_module \<Rightarrow> bp_value option" where
  "bp_property k m = map_of (properties m) k"

definition bp_name :: "bp_module \<Rightarrow> string option" where
  "bp_name m = (case bp_property ''name'' m of Some (BpString s) \<Rightarrow> Some s | _ \<Rightarrow> None)"

definition string_list_property :: "string \<Rightarrow> bp_module \<Rightarrow> string list" where
  "string_list_property k m = (case bp_property k m of Some (BpList xs) \<Rightarrow> xs | _ \<Rightarrow> [])"

text \<open>The source file an architecture variant names, if it names one.\<close>

definition variant_src :: "string \<times> bp_value \<Rightarrow> (string \<times> string) list" where
  "variant_src av =
     (case snd av of
        BpMap ps \<Rightarrow> (case map_of ps ''src'' of Some (BpString s) \<Rightarrow> [(fst av, s)] | _ \<Rightarrow> [])
      | _ \<Rightarrow> [])"

definition arch_srcs :: "bp_module \<Rightarrow> (string \<times> string) list" where
  "arch_srcs m =
     (case bp_property ''arch'' m of
        Some (BpMap vs) \<Rightarrow> concat (map variant_src vs)
      | _ \<Rightarrow> [])"

text \<open>
  A property as an architecture variant of the module sees it: the variant's own value
  where its \<open>arch\<close> entry sets one, the module's otherwise.
\<close>

definition variant_property :: "string \<Rightarrow> bp_module \<Rightarrow> string \<Rightarrow> bp_value option" where
  "variant_property k m a =
     (case bp_property ''arch'' m of
        Some (BpMap vs) \<Rightarrow>
          (case map_of vs a of
             Some (BpMap ps) \<Rightarrow> (case map_of ps k of Some v \<Rightarrow> Some v | None \<Rightarrow> bp_property k m)
           | _ \<Rightarrow> bp_property k m)
      | _ \<Rightarrow> bp_property k m)"

text \<open>The word size of the build system's architecture targets (0: not a target).\<close>

definition arch_word_size :: "string \<Rightarrow> nat" where
  "arch_word_size a =
     (if a = ''arm'' \<or> a = ''x86'' then 32
      else if a = ''arm64'' \<or> a = ''riscv64'' \<or> a = ''x86_64'' then 64
      else 0)"

text \<open>The modules of the file, in its order.\<close>

definition package_mediaextractor :: bp_module where
  "package_mediaextractor = Module ''package''
     [(''default_applicable_licenses'',
         BpList [''frameworks_av_services_mediaextractor_license''])]"

definition license_mediaextractor :: bp_module where
  "license_mediaextractor = Module ''license''
     [(''name'', BpString ''frameworks_av_services_mediaextractor_license''),
      (''visibility'', BpList ['':__subpackages__'']),
      (''license_kinds'', BpList [''SPDX-license-identifier-Apache-2.0'']),
      (''license_text'', BpList [''NOTICE''])]"

definition libmediaextractorservice :: bp_module where
  "libmediaextractorservice = Module ''cc_library_shared''
     [(''name'', BpString ''libmediaextractorservice''),
      (''cflags'', BpList [''-Wall'', ''-Werror'']),
      (''srcs'', BpList [''MediaExtractorService.cpp'']),
      (''shared_libs'', BpList
         [''libdatasource'', ''libmedia'', ''libstagefright'', ''libstagefright_foundation'',
          ''libbinder'', ''libutils'', ''liblog'']),
      (''header_libs'', BpList [''libmediametrics_headers''])]"

definition mediaextractor :: bp_module where
  "mediaextractor = Module ''cc_binary''
     [(''name'', BpString ''mediaextractor''),
      (''srcs'', BpList [''main_extractorservice.cpp'']),
      (''shared_libs'', BpList
         [''libmedia'', ''libmediaextractorservice'', ''libmediautils'', ''libbinder'',
          ''libutils'', ''liblog'', ''libavservices_minijail'']),
      (''init_rc'', BpList [''mediaextractor.rc'']),
      (''cflags'', BpList [''-Wall'', ''-Werror'']),
      (''required'', BpList [''mediaextractor.policy''])]"

definition mediaextractor_policy :: bp_module where
  "mediaextractor_policy = Module ''prebuilt_etc''
     [(''name'', BpString ''mediaextractor.policy''),
      (''sub_dir'', BpString ''seccomp_policy''),
      (''arch'', BpMap
         [(''arm'', BpMap [(''src'', BpString ''seccomp_policy/mediaextractor-arm.policy'')]),
          (''arm64'', BpMap [(''src'', BpString ''seccomp_policy/mediaextractor-arm64.policy'')]),
          (''riscv64'', BpMap [(''src'', BpString ''seccomp_policy/mediaextractor-riscv64.policy'')]),
          (''x86'', BpMap [(''src'', BpString ''seccomp_policy/mediaextractor-x86.policy'')]),
          (''x86_64'', BpMap [(''src'', BpString ''seccomp_policy/mediaextractor-x86_64.policy'')])]),
      (''required'', BpList [''crash_dump.policy'', ''code_coverage.policy''])]"

definition package_audiopolicy :: bp_module where
  "package_audiopolicy = Module ''package''
     [(''default_applicable_licenses'', BpList [''frameworks_av_license''])]"

definition libaudiopolicyservice :: bp_module where
  "libaudiopolicyservice = Module ''cc_library_shared''
     [(''name'', BpString ''libaudiopolicyservice''),
      (''defaults'', BpList [''latest_android_media_audio_common_types_cpp_shared'']),
      (''srcs'', BpList
         [''AudioPolicyClientImpl.cpp'', ''AudioPolicyEffects.cpp'',
          ''AudioPolicyInterfaceImpl.cpp'', ''AudioPolicyService.cpp'',
          ''CaptureStateNotifier.cpp'', ''Spatializer.cpp'', ''SpatializerPoseController.cpp'']),
      (''include_dirs'', BpList [''frameworks/av/services/audioflinger'']),
      (''shared_libs'', BpList
         [''libactivitymanager_aidl'', ''libaudioclient'', ''libaudioclient_aidl_conversion'',
          ''libaudiofoundation'', ''libaudiohal'', ''libaudiopolicy'',
          ''libaudiopolicymanagerdefault'', ''libaudiousecasevalidation'', ''libaudioutils'',
          ''libbinder'', ''libcutils'', ''libeffectsconfig'', ''libhardware_legacy'',
          ''libheadtracking'', ''libheadtracking-binding'', ''liblog'', ''libmedia_helper'',
          ''libmediametrics'', ''libmediautils'', ''libpermission'', ''libsensor'',
          ''libsensorprivacy'', ''libshmemcompat'', ''libstagefright_foundation'', ''libutils'',
          ''libxml2'', ''audioclient-types-aidl-cpp'', ''audioflinger-aidl-cpp'',
          ''audiopolicy-aidl-cpp'', ''audiopolicy-types-aidl-cpp'',
          ''capture_state_listener-aidl-cpp'', ''framework-permission-aidl-cpp'',
          ''packagemanager_aidl-cpp'', ''spatializer-aidl-cpp'']),
      (''static_libs'', BpList [''libaudiopolicycomponents'', ''framework-permission-aidl-cpp'']),
      (''header_libs'', BpList
         [''libaudiohal_headers'', ''libaudiopolicycommon'',
          ''libaudiopolicyengine_interface_headers'',
          ''libaudiopolicymanager_interface_headers'', ''libaudioutils_headers'']),
      (''cflags'', BpList [''-fvisibility=hidden'', ''-Werror'', ''-Wall'', ''-Wthread-safety'']),
      (''export_shared_lib_headers'', BpList
         [''libactivitymanager_aidl'', ''libaudiousecasevalidation'', ''libheadtracking'',
          ''libheadtracking-binding'', ''libsensorprivacy'', ''framework-permission-aidl-cpp''])]"

definition Android_bp :: "bp_module list" where
  "Android_bp =
     [package_mediaextractor, license_mediaextractor, libmediaextractorservice, mediaextractor,
      mediaextractor_policy, package_audiopolicy, libaudiopolicyservice]"

section \<open>Audio channel masks: from the legacy mask to the interface layout\<close>

text \<open>
  The conversion layer (AidlConversion) is not among the sources; its conformance suite
  (media/libaudioclient/tests/audio_aidl_legacy_conversion_tests.cpp) is. The suite's
  parameter tables are embedded from the source; the conversion they call, and the
  literals they name, are modelled from the spec.
\<close>

text \<open>
  Modelled from the spec: the interface type \<open>AudioChannelLayout\<close> (section 3), "a tagged
  variant with cases: none, invalid (carrying an integer payload), layoutMask, indexMask,
  voiceMask". The suite builds its values with these tags (\<open>AudioChannelLayout{}\<close> is
  \<open>none 0\<close>); every payload is a 32-bit integer.
\<close>

datatype AudioChannelLayout =
    none "32 word"
  | invalid "32 word"
  | layoutMask "32 word"
  | indexMask "32 word"
  | voiceMask "32 word"

text \<open>
  Modelled from the spec: a conversion returns "either success carrying the converted
  value, or failure carrying an error indicator" (section 4.1). The failure is \<open>Inl\<close>.
\<close>

datatype conversion_error = BAD_VALUE

text \<open>
  Modelled from the spec: the legacy channel mask, a 32-bit value. Its literals are
  declared in the platform's audio header, outside this repository. The spec names them
  and calls them "fixed platform literals that a reimplementation must reproduce
  bit-for-bit" (section 6) without giving their numbers; the numbers below are the
  platform's. The source agrees with them where it can be checked: its comments say that
  each valid output mask of the edge-case table is the same number as one of the invalid
  input masks (lemma \<open>edge_case_masks_as_the_source_says\<close>).
\<close>

type_synonym audio_channel_mask_t = "32 word"

text \<open>
  Modelled from the spec: the legacy mask of "absence of assignment" (section 3), no bit set.
\<close>

definition AUDIO_CHANNEL_NONE :: audio_channel_mask_t where
  "AUDIO_CHANNEL_NONE = 0x0"

text \<open>
  Modelled from the spec: the legacy mask of the "explicit error marker" (section 3); the platform's
  literal has the two representation bits set and no channel bit.
\<close>

definition AUDIO_CHANNEL_INVALID :: audio_channel_mask_t where
  "AUDIO_CHANNEL_INVALID = 0xC0000000"

text \<open>
  Modelled from the spec: the legacy output flag "front-center" of the edge-case table (section 4.2).
\<close>

definition AUDIO_CHANNEL_OUT_FRONT_CENTER :: audio_channel_mask_t where
  "AUDIO_CHANNEL_OUT_FRONT_CENTER = 0x4"

text \<open>
  Modelled from the spec: the legacy output flag "low-frequency" of the edge-case table (section 4.2).
\<close>

definition AUDIO_CHANNEL_OUT_LOW_FREQUENCY :: audio_channel_mask_t where
  "AUDIO_CHANNEL_OUT_LOW_FREQUENCY = 0x8"

text \<open>
  Modelled from the spec: the legacy output flag top-front-right, the "single top-channel bit" of the
  first valid output mask of the edge-case table (section 4.2).
\<close>

definition AUDIO_CHANNEL_OUT_TOP_FRONT_RIGHT :: audio_channel_mask_t where
  "AUDIO_CHANNEL_OUT_TOP_FRONT_RIGHT = 0x4000"

text \<open>
  Modelled from the spec: the legacy output flag top-back-left, the "single top-channel bit" of the
  second valid output mask of the edge-case table (section 4.2).
\<close>

definition AUDIO_CHANNEL_OUT_TOP_BACK_LEFT :: audio_channel_mask_t where
  "AUDIO_CHANNEL_OUT_TOP_BACK_LEFT = 0x8000"

text \<open>
  Modelled from the spec: "the input stereo positional mask" (section 8, property 3): the legacy input
  flags left (\<open>0x4\<close>) and right (\<open>0x8\<close>).
\<close>

definition AUDIO_CHANNEL_IN_STEREO :: audio_channel_mask_t where
  "AUDIO_CHANNEL_IN_STEREO = 0xC"

text \<open>
  Modelled from the spec: 'the legacy "6-channel" input mask' (section 8, property 4): the legacy input
  flags left, right, front, back, left-processed and right-processed (\<open>0x4\<close> to \<open>0x80\<close>).
\<close>

definition AUDIO_CHANNEL_IN_6 :: audio_channel_mask_t where
  "AUDIO_CHANNEL_IN_6 = 0xFC"

text \<open>
  Modelled from the spec: 'the "front-processed" bit' (section 8, property 4).
\<close>

definition AUDIO_CHANNEL_IN_FRONT_PROCESSED :: audio_channel_mask_t where
  "AUDIO_CHANNEL_IN_FRONT_PROCESSED = 0x100"

text \<open>
  Modelled from the spec: the sensor-channel bit "pressure" (section 8, property 4).
\<close>

definition AUDIO_CHANNEL_IN_PRESSURE :: audio_channel_mask_t where
  "AUDIO_CHANNEL_IN_PRESSURE = 0x400"

text \<open>
  Modelled from the spec: the sensor-channel bit "x-axis" (section 8, property 4).
\<close>

definition AUDIO_CHANNEL_IN_X_AXIS :: audio_channel_mask_t where
  "AUDIO_CHANNEL_IN_X_AXIS = 0x800"

text \<open>
  Modelled from the spec: the sensor-channel bit "y-axis" (section 8, property 4).
\<close>

definition AUDIO_CHANNEL_IN_Y_AXIS :: audio_channel_mask_t where
  "AUDIO_CHANNEL_IN_Y_AXIS = 0x1000"

text \<open>
  Modelled from the spec: the sensor-channel bit "z-axis" (section 8, property 4).
\<close>

definition AUDIO_CHANNEL_IN_Z_AXIS :: audio_channel_mask_t where
  "AUDIO_CHANNEL_IN_Z_AXIS = 0x2000"

text \<open>
  Modelled from the spec: "the voice-uplink bit" (section 8, property 3).
\<close>

definition AUDIO_CHANNEL_IN_VOICE_UPLINK :: audio_channel_mask_t where
  "AUDIO_CHANNEL_IN_VOICE_UPLINK = 0x4000"

text \<open>
  Modelled from the spec: "the voice-downlink bit" (section 8, property 3).
\<close>

definition AUDIO_CHANNEL_IN_VOICE_DNLINK :: audio_channel_mask_t where
  "AUDIO_CHANNEL_IN_VOICE_DNLINK = 0x8000"

text \<open>
  Modelled from the spec: the valid input voice-submask "uplink-mono" (section 4.2): the uplink bit with
  the legacy input mono mask (\<open>0x10\<close>, the input flag front).
\<close>

definition AUDIO_CHANNEL_IN_VOICE_UPLINK_MONO :: audio_channel_mask_t where
  "AUDIO_CHANNEL_IN_VOICE_UPLINK_MONO = 0x4010"

text \<open>
  Modelled from the spec: the valid input voice-submask "downlink-mono" (section 4.2): the downlink bit
  with the legacy input mono mask.
\<close>

definition AUDIO_CHANNEL_IN_VOICE_DNLINK_MONO :: audio_channel_mask_t where
  "AUDIO_CHANNEL_IN_VOICE_DNLINK_MONO = 0x8010"

text \<open>
  Modelled from the spec: the valid input voice-submask "call-mono" (section 4.2): both voice bits with
  the legacy input mono mask.
\<close>

definition AUDIO_CHANNEL_IN_VOICE_CALL_MONO :: audio_channel_mask_t where
  "AUDIO_CHANNEL_IN_VOICE_CALL_MONO = 0xC010"

text \<open>
  Modelled from the spec: "layoutMask values are bit-for-bit mapped between the
  interface-description position-flag namespace and the legacy position-flag namespace;
  the position-flag vocabulary differs by direction: the output vocabulary includes a
  larger positional set (front/back/top/bottom/wide/low-frequency/haptic channels)"
  (section 4.1). One pair (legacy flag, interface flag) for each of the 28 output flags
  of testable property 1, in the interface's bit order: the interface numbers its
  positional flags \<open>1 << 0\<close> to \<open>1 << 25\<close> and the haptic flags A and B
  \<open>1 << 30\<close> and \<open>1 << 29\<close>; the legacy output flags have the same values but for
  haptic A and B, which are \<open>0x20000000\<close> and \<open>0x10000000\<close>.
\<close>

definition getOutAudioChannelBits :: "(audio_channel_mask_t \<times> 32 word) list" where
  "getOutAudioChannelBits =
     [(0x1, 0x1),               \<comment> \<open>front left\<close>
      (0x2, 0x2),               \<comment> \<open>front right\<close>
      (0x4, 0x4),               \<comment> \<open>front center\<close>
      (0x8, 0x8),               \<comment> \<open>low frequency\<close>
      (0x10, 0x10),             \<comment> \<open>back left\<close>
      (0x20, 0x20),             \<comment> \<open>back right\<close>
      (0x40, 0x40),             \<comment> \<open>front left of center\<close>
      (0x80, 0x80),             \<comment> \<open>front right of center\<close>
      (0x100, 0x100),           \<comment> \<open>back center\<close>
      (0x200, 0x200),           \<comment> \<open>side left\<close>
      (0x400, 0x400),           \<comment> \<open>side right\<close>
      (0x800, 0x800),           \<comment> \<open>top center\<close>
      (0x1000, 0x1000),         \<comment> \<open>top front left\<close>
      (0x2000, 0x2000),         \<comment> \<open>top front center\<close>
      (0x4000, 0x4000),         \<comment> \<open>top front right\<close>
      (0x8000, 0x8000),         \<comment> \<open>top back left\<close>
      (0x10000, 0x10000),       \<comment> \<open>top back center\<close>
      (0x20000, 0x20000),       \<comment> \<open>top back right\<close>
      (0x40000, 0x40000),       \<comment> \<open>top side left\<close>
      (0x80000, 0x80000),       \<comment> \<open>top side right\<close>
      (0x100000, 0x100000),     \<comment> \<open>bottom front left\<close>
      (0x200000, 0x200000),     \<comment> \<open>bottom front center\<close>
      (0x400000, 0x400000),     \<comment> \<open>bottom front right\<close>
      (0x800000, 0x800000),     \<comment> \<open>low frequency 2\<close>
      (0x1000000, 0x1000000),   \<comment> \<open>front wide left\<close>
      (0x2000000, 0x2000000),   \<comment> \<open>front wide right\<close>
      (0x20000000, 0x40000000), \<comment> \<open>haptic A\<close>
      (0x10000000, 0x20000000)  \<comment> \<open>haptic B\<close>]"

text \<open>
  Modelled from the spec: "the input vocabulary includes a smaller positional set plus
  disjoint voice-call bits" (section 4.1). The positional set is the nine flags the suite
  round-trips in the input direction (front left and right, back center, back left and
  right, front center, low frequency, top side left and right), each with the legacy
  input flag of that position (\<open>IN_LEFT\<close>, \<open>IN_RIGHT\<close>, \<open>IN_BACK\<close>, \<open>IN_BACK_LEFT\<close>,
  \<open>IN_BACK_RIGHT\<close>, \<open>IN_CENTER\<close>, \<open>IN_LOW_FREQUENCY\<close>, \<open>IN_TOP_LEFT\<close>, \<open>IN_TOP_RIGHT\<close>);
  the legacy \<open>IN_FRONT\<close> also reads as front center, and comes last. The processed,
  pressure, axis and voice bits have no pair: they "have no interface-description
  equivalent".
\<close>

definition getInAudioChannelBits :: "(audio_channel_mask_t \<times> 32 word) list" where
  "getInAudioChannelBits =
     [(0x4, 0x1),               \<comment> \<open>left: front left\<close>
      (0x8, 0x2),               \<comment> \<open>right: front right\<close>
      (0x20, 0x100),            \<comment> \<open>back: back center\<close>
      (0x10000, 0x10),          \<comment> \<open>back left\<close>
      (0x20000, 0x20),          \<comment> \<open>back right\<close>
      (0x40000, 0x4),           \<comment> \<open>center: front center\<close>
      (0x100000, 0x8),          \<comment> \<open>low frequency\<close>
      (0x200000, 0x40000),      \<comment> \<open>top left: top side left\<close>
      (0x400000, 0x80000),      \<comment> \<open>top right: top side right\<close>
      (0x10, 0x4)               \<comment> \<open>front: front center\<close>]"

text \<open>
  Modelled from the spec: the named layouts, which convert as a whole. The spec names
  the mono and stereo masks of each direction (sections 4.1 and 6): legacy input mono
  (\<open>0x10\<close>) and stereo (\<open>0xC\<close>), legacy output mono (\<open>0x1\<close>) and stereo (\<open>0x3\<close>); the
  interface's mono layout is front left, its stereo layout front left and right.
\<close>

definition getInAudioChannelPairs :: "(audio_channel_mask_t \<times> AudioChannelLayout) list" where
  "getInAudioChannelPairs = [(0x10, layoutMask 0x1), (0xC, layoutMask 0x3)]"

definition getOutAudioChannelPairs :: "(audio_channel_mask_t \<times> AudioChannelLayout) list" where
  "getOutAudioChannelPairs = [(0x1, layoutMask 0x1), (0x3, layoutMask 0x3)]"

text \<open>
  Modelled from the spec: "voiceMask values occupy a namespace reserved for voice-call
  channel roles and are defined only for input direction" (section 4.1); the "three
  valid input voice-submasks (uplink-mono, downlink-mono, call-mono)" of section 4.2.
  In the interface the uplink bit is \<open>0x4000\<close>, the downlink bit \<open>0x8000\<close>, and a call
  has both.
\<close>

definition getVoiceAudioChannelPairs :: "(audio_channel_mask_t \<times> AudioChannelLayout) list" where
  "getVoiceAudioChannelPairs =
     [(AUDIO_CHANNEL_IN_VOICE_UPLINK_MONO, voiceMask 0x4000),
      (AUDIO_CHANNEL_IN_VOICE_DNLINK_MONO, voiceMask 0x8000),
      (AUDIO_CHANNEL_IN_VOICE_CALL_MONO, voiceMask 0xC000)]"

text \<open>
  Modelled from the spec: the bit-for-bit mapping of a legacy positional mask. Each pair
  whose legacy flag is in the mask gives its interface flag and takes the legacy flag
  out; the mapping succeeds when nothing is left. What is left when the pairs are
  exhausted are bits outside the direction's vocabulary ("bit ranges that are not
  independently addressable for the given direction", "input-only special bits that
  have no interface-description equivalent"): the result is then 0, no layout.
\<close>

fun legacyBitsToAidlLayout_from ::
  "(audio_channel_mask_t \<times> 32 word) list \<Rightarrow> audio_channel_mask_t \<Rightarrow> 32 word \<Rightarrow> 32 word" where
  "legacyBitsToAidlLayout_from [] legacy aidlLayout = 0"
| "legacyBitsToAidlLayout_from ((l, a) # pairs) legacy aidlLayout =
     (if legacy AND l = l then
        (if legacy AND NOT l = 0 then aidlLayout OR a
         else legacyBitsToAidlLayout_from pairs (legacy AND NOT l) (aidlLayout OR a))
      else legacyBitsToAidlLayout_from pairs legacy aidlLayout)"

text \<open>
  Modelled from the spec: the mapping with the vocabulary of the direction
  ("direction as an explicit side input", section 9).
\<close>

definition legacyBitsToAidlLayout :: "audio_channel_mask_t \<Rightarrow> bool \<Rightarrow> 32 word" where
  "legacyBitsToAidlLayout legacy isInput =
     legacyBitsToAidlLayout_from
       (if isInput then getInAudioChannelBits else getOutAudioChannelBits) legacy 0"

text \<open>
  Modelled from the spec: how a legacy mask says what it is. The platform keeps the
  representation in the two bits above the 30 channel bits: 0 is a positional mask, 2 an
  index mask ("a bitmask over channel index positions").
\<close>

definition audio_channel_mask_get_representation :: "audio_channel_mask_t \<Rightarrow> 32 word" where
  "audio_channel_mask_get_representation channel = drop_bit 30 channel AND 0x3"

text \<open>Modelled from the spec: the 30 channel bits of a legacy mask.\<close>

definition audio_channel_mask_get_bits :: "audio_channel_mask_t \<Rightarrow> 32 word" where
  "audio_channel_mask_get_bits channel = channel AND 0x3FFFFFFF"

text \<open>
  Modelled from the spec: \<open>legacy2aidl_audio_channel_mask_t_AudioChannelLayout\<close>
  (section 4.1, "Channel layout conversion").
  \<^item> The absent and the invalid mask "round-trip as data": they convert to \<open>none\<close>
    and \<open>invalid\<close>.
  \<^item> An index mask converts to \<open>indexMask\<close> of its bits, "independent of direction",
    "any combination of set bits"; without a bit it is no mask.
  \<^item> A positional mask that is a named layout of the direction, or for input one of
    the three voice masks, converts to it.
  \<^item> Any other input mask with a voice bit "must be rejected as invalid because the
    two interpretations cannot be disambiguated from the legacy numeric form alone".
  \<^item> Any other positional mask is mapped bit for bit, "any combination of bits valid
    for the given direction is an accepted generic mask", and fails where that
    mapping gives no layout.
\<close>

definition legacy2aidl_audio_channel_mask_t_AudioChannelLayout ::
  "audio_channel_mask_t \<Rightarrow> bool \<Rightarrow> conversion_error + AudioChannelLayout" where
  "legacy2aidl_audio_channel_mask_t_AudioChannelLayout legacy isInput =
     (if legacy = AUDIO_CHANNEL_NONE then Inr (none 0)
      else if legacy = AUDIO_CHANNEL_INVALID then Inr (invalid 0)
      else if audio_channel_mask_get_representation legacy = 0x2 then
        (if audio_channel_mask_get_bits legacy = 0 then Inl BAD_VALUE
         else Inr (indexMask (audio_channel_mask_get_bits legacy)))
      else if audio_channel_mask_get_representation legacy = 0x0 then
        (case map_of (if isInput then getInAudioChannelPairs @ getVoiceAudioChannelPairs
                      else getOutAudioChannelPairs) legacy of
           Some aidl \<Rightarrow> Inr aidl
         | None \<Rightarrow>
             if isInput \<and>
                legacy AND (AUDIO_CHANNEL_IN_VOICE_UPLINK OR AUDIO_CHANNEL_IN_VOICE_DNLINK) \<noteq> 0
             then Inl BAD_VALUE
             else if legacyBitsToAidlLayout legacy isInput = 0 then Inl BAD_VALUE
             else Inr (layoutMask (legacyBitsToAidlLayout legacy isInput)))
      else Inl BAD_VALUE)"

subsection \<open>The suite's edge-case table\<close>

text \<open>
  \<open>INSTANTIATE_TEST_SUITE_P(AudioChannelLayoutEdgeCase, ...)\<close>: the rows
  (legacy mask, isInput, isValid), in the source's order. The source marks the two
  output rows "This has the same numerical representation as Mask 'A' below" and
  "... as Mask 'B' below"; masks A and B are the last two rows.
\<close>

definition AudioChannelLayoutEdgeCase :: "(audio_channel_mask_t \<times> bool \<times> bool) list" where
  "AudioChannelLayoutEdgeCase =
     [(AUDIO_CHANNEL_IN_VOICE_UPLINK_MONO, True, True),
      (AUDIO_CHANNEL_IN_VOICE_DNLINK_MONO, True, True),
      (AUDIO_CHANNEL_IN_VOICE_CALL_MONO, True, True),
      (AUDIO_CHANNEL_OUT_FRONT_CENTER OR AUDIO_CHANNEL_OUT_LOW_FREQUENCY OR
         AUDIO_CHANNEL_OUT_TOP_FRONT_RIGHT, False, True),
      (AUDIO_CHANNEL_OUT_FRONT_CENTER OR AUDIO_CHANNEL_OUT_LOW_FREQUENCY OR
         AUDIO_CHANNEL_OUT_TOP_BACK_LEFT, False, True),
      (AUDIO_CHANNEL_IN_6, True, False),
      (AUDIO_CHANNEL_IN_6 OR AUDIO_CHANNEL_IN_FRONT_PROCESSED, True, False),
      (AUDIO_CHANNEL_IN_PRESSURE OR AUDIO_CHANNEL_IN_X_AXIS OR AUDIO_CHANNEL_IN_Y_AXIS OR
         AUDIO_CHANNEL_IN_Z_AXIS, True, False),
      (AUDIO_CHANNEL_IN_STEREO OR AUDIO_CHANNEL_IN_VOICE_UPLINK, True, False),
      (AUDIO_CHANNEL_IN_STEREO OR AUDIO_CHANNEL_IN_VOICE_DNLINK, True, False)]"

text \<open>
  \<open>TEST_P(AudioChannelLayoutEdgeCaseTest, Legacy2Aidl)\<close>:
  \<open>EXPECT_EQ(isValid, conv.ok())\<close> for the conversion of the row's mask in the row's
  direction.
\<close>

definition Legacy2Aidl :: "audio_channel_mask_t \<times> bool \<times> bool \<Rightarrow> bool" where
  "Legacy2Aidl param =
     (case param of (legacy, isInput, isValid) \<Rightarrow>
        isValid = (\<not> isl (legacy2aidl_audio_channel_mask_t_AudioChannelLayout legacy isInput)))"

section \<open>Theorems: the media muxer binding\<close>

lemma unat_scast_nonneg:
  fixes w :: "32 word"
  assumes "0 \<le> sint w"
  shows "unat (scast w :: 64 word) = nat (sint w)"
proof -
  have lt: "sint w < 2 ^ 31"
    using sint_lt [of w] by simp
  have "(2::int) ^ 31 < 2 ^ 64"
    by simp
  with lt have lt64: "sint w < 2 ^ 64"
    by (rule less_trans)
  have "uint (word_of_int (sint w) :: 64 word) = take_bit LENGTH(64) (sint w)"
    by (rule uint_word_of_int_eq)
  also have "\<dots> = sint w"
    using assms lt64 by (simp add: take_bit_int_eq_self)
  finally have "uint (scast w :: 64 word) = sint w"
    by (simp only: scast_eq)
  then show ?thesis
    by (simp only: unat_eq_nat_uint)
qed

text \<open>
  What \<open>AMediaMuxer_new\<close> returns is the null handle, with the store as it was, or a
  live handle that holds the engine just created.
\<close>

lemma AMediaMuxer_new_result:
  assumes "AMediaMuxer_new create h mData fd format = (p, h')"
  shows "(p = nullptr \<and> h' = h) \<or>
         (p = mData \<and> p \<noteq> nullptr \<and>
          (\<exists>e. create fd format = Some e \<and> h' = h(mData \<mapsto> \<lparr>mImpl = e\<rparr>)))"
  using assms by (auto simp: AMediaMuxer_new_def split: if_splits option.splits)

text \<open>
  C10. \<open>AMediaMuxer_delete\<close> on the null handle returns \<open>AMEDIA_OK\<close> and leaves every
  handle as it was; on a live handle, whatever its state \<open>m\<close>, it returns \<open>AMEDIA_OK\<close>
  and releases the handle; and no argument at all makes it return another status.
\<close>

theorem AMediaMuxer_delete_always_ok:
  "AMediaMuxer_delete h nullptr = Inr (AMEDIA_OK, h) \<and>
   (muxer \<noteq> nullptr \<and> h muxer = Some m \<longrightarrow>
      AMediaMuxer_delete h muxer = Inr (AMEDIA_OK, h(muxer := None))) \<and>
   (\<forall>r. AMediaMuxer_delete h muxer = Inr r \<longrightarrow> fst r = AMEDIA_OK)"
  by (auto simp: AMediaMuxer_delete_def split: option.splits)

theorem AMediaMuxer_delete_always_ok_witness:
  "AMediaMuxer_delete [0x1000 \<mapsto> \<lparr>mImpl = [] :: recorded\<rparr>] nullptr
     = Inr (AMEDIA_OK, [0x1000 \<mapsto> \<lparr>mImpl = []\<rparr>]) \<and>
   AMediaMuxer_delete [0x1000 \<mapsto> \<lparr>mImpl = [] :: recorded\<rparr>] 0x1000
     = Inr (AMEDIA_OK, [0x1000 \<mapsto> \<lparr>mImpl = []\<rparr>](0x1000 := None))"
  using AMediaMuxer_delete_always_ok
    [of "[0x1000 \<mapsto> \<lparr>mImpl = [] :: recorded\<rparr>]" "0x1000" "\<lparr>mImpl = []\<rparr>"]
  by (simp add: nullptr_def)

text \<open>
  C7, as the claim states it: the binding copies the sample's bytes into a transient
  buffer, so that what the engine holds are those bytes. On this input the engine is
  handed a buffer at the caller's own address, \<open>data + offset = 0x2002\<close>, where it reads
  the bytes 2, 3, 4; once the caller overwrites its byte at that address, the same buffer
  reads 255, 3, 4. The buffer is the caller's memory, not a copy of it.
\<close>

theorem writeSampleData_copy_counterexample:
  "AMediaMuxer_writeSampleData (\<lambda>err. err) recording_writeSampleData (\<lambda>a. ucast (a AND 0xFF))
       [0x1000 \<mapsto> \<lparr>mImpl = []\<rparr>] 0x1000 0 0x2000
       \<lparr>offset = 2, size' = 3, presentationTimeUs = 1000, flags = 0\<rparr>
     = Inr (0, [0x1000 \<mapsto> \<lparr>mImpl = []\<rparr>,
                0x1000 \<mapsto> \<lparr>mImpl = [(\<lparr>base = 0x2002, capacity = 3\<rparr>, [2, 3, 4], 0, 1000, 0)]\<rparr>]) \<and>
   ABuffer_bytes ((\<lambda>a. ucast (a AND 0xFF))(0x2002 := 0xFF)) \<lparr>base = 0x2002, capacity = 3\<rparr>
     = [0xFF, 3, 4] \<and>
   ABuffer_bytes ((\<lambda>a. ucast (a AND 0xFF))(0x2002 := 0xFF)) \<lparr>base = 0x2002, capacity = 3\<rparr>
     \<noteq> ABuffer_bytes (\<lambda>a. ucast (a AND 0xFF)) \<lparr>base = 0x2002, capacity = 3\<rparr>"
proof -
  have "AMediaMuxer_writeSampleData (\<lambda>err. err) recording_writeSampleData (\<lambda>a. ucast (a AND 0xFF))
       [0x1000 \<mapsto> \<lparr>mImpl = []\<rparr>] 0x1000 0 0x2000
       \<lparr>offset = 2, size' = 3, presentationTimeUs = 1000, flags = 0\<rparr>
     = Inr (0, [0x1000 \<mapsto> \<lparr>mImpl = []\<rparr>,
                0x1000 \<mapsto> \<lparr>mImpl = [(\<lparr>base = 0x2002, capacity = 3\<rparr>, [2, 3, 4], 0, 1000, 0)]\<rparr>])"
    by (simp add: AMediaMuxer_writeSampleData_def deref_def nullptr_def ABuffer_new_def
        recording_writeSampleData_def ABuffer_bytes_def upt_rec)
  moreover have "ABuffer_bytes ((\<lambda>a. ucast (a AND 0xFF))(0x2002 := 0xFF))
      \<lparr>base = 0x2002, capacity = 3\<rparr> = [0xFF, 3, 4]"
    by (simp add: ABuffer_bytes_def upt_rec)
  moreover have "ABuffer_bytes (\<lambda>a. ucast (a AND 0xFF)) \<lparr>base = 0x2002, capacity = 3\<rparr>
      = [2, 3, 4]"
    by (simp add: ABuffer_bytes_def upt_rec)
  ultimately show ?thesis
    by simp
qed

text \<open>
  C7, amended. For a live handle and every sample pointer, track index and buffer info:
  the binding wraps the sample in a transient buffer without copying it. The buffer
  starts at the caller's address \<open>data + offset\<close> and spans \<open>size\<close> bytes (\<open>size\<close> read as
  a \<open>size_t\<close>, which is \<open>size\<close> itself unless it is negative); in whatever state \<open>mem'\<close>
  the memory is when the buffer is read, its bytes are those of that memory at
  \<open>data + offset\<close>, in order. The engine receives this buffer together with the track
  index, the presentation time and the flags as the caller gave them; the result is the
  engine's status translated, and the handle keeps the engine's new state.
\<close>

theorem AMediaMuxer_writeSampleData_forwards:
  assumes "muxer \<noteq> nullptr" and "h muxer = Some m"
  shows "\<exists>buf err e'.
     base buf = data + scast (offset info) \<and> capacity buf = scast (size' info) \<and>
     (\<forall>mem'. ABuffer_bytes mem' buf
        = map (\<lambda>i. mem' (data + scast (offset info) + of_nat i))
            [0..<unat (scast (size' info) :: size_t)]) \<and>
     ABuffer_bytes mem buf
       = map (\<lambda>i. mem (data + scast (offset info) + of_nat i))
           [0..<unat (scast (size' info) :: size_t)] \<and>
     (0 \<le> sint (size' info) \<longrightarrow> length (ABuffer_bytes mem buf) = nat (sint (size' info))) \<and>
     writeSampleData (mImpl m) mem buf trackIdx (presentationTimeUs info) (flags info) = (err, e') \<and>
     AMediaMuxer_writeSampleData translate_error writeSampleData mem h muxer trackIdx data info
       = Inr (translate_error err, h(muxer \<mapsto> m\<lparr>mImpl := e'\<rparr>))"
proof -
  let ?buf = "ABuffer_new (data + scast (offset info)) (scast (size' info))"
  obtain err e' where r:
    "writeSampleData (mImpl m) mem ?buf trackIdx (presentationTimeUs info) (flags info) = (err, e')"
    by (cases "writeSampleData (mImpl m) mem ?buf trackIdx (presentationTimeUs info) (flags info)")
  have view: "\<forall>mem'. ABuffer_bytes mem' ?buf
       = map (\<lambda>i. mem' (data + scast (offset info) + of_nat i))
           [0..<unat (scast (size' info) :: size_t)]"
    by (simp add: ABuffer_bytes_def ABuffer_new_def)
  then have bytes: "ABuffer_bytes mem ?buf
       = map (\<lambda>i. mem (data + scast (offset info) + of_nat i))
           [0..<unat (scast (size' info) :: size_t)]"
    by blast
  have len: "0 \<le> sint (size' info) \<longrightarrow> length (ABuffer_bytes mem ?buf) = nat (sint (size' info))"
    by (simp add: bytes unat_scast_nonneg)
  have "deref h muxer = Inr m"
    using assms by (simp add: deref_def)
  then have "AMediaMuxer_writeSampleData translate_error writeSampleData mem h muxer trackIdx data info
       = Inr (translate_error err, h(muxer \<mapsto> m\<lparr>mImpl := e'\<rparr>))"
    using r by (simp add: AMediaMuxer_writeSampleData_def)
  moreover have "base ?buf = data + scast (offset info)" "capacity ?buf = scast (size' info)"
    by (simp_all add: ABuffer_new_def)
  ultimately show ?thesis
    using view bytes len r by blast
qed

theorem AMediaMuxer_writeSampleData_forwards_witness:
  "AMediaMuxer_writeSampleData (\<lambda>err. err) recording_writeSampleData (\<lambda>a. ucast (a AND 0xFF))
       [0x1000 \<mapsto> \<lparr>mImpl = []\<rparr>] 0x1000 0 0x2000
       \<lparr>offset = 2, size' = 3, presentationTimeUs = 1000, flags = 0\<rparr>
     = Inr (0, [0x1000 \<mapsto> \<lparr>mImpl = []\<rparr>,
                0x1000 \<mapsto> \<lparr>mImpl = [(\<lparr>base = 0x2002, capacity = 3\<rparr>, [2, 3, 4], 0, 1000, 0)]\<rparr>])"
  using AMediaMuxer_writeSampleData_forwards
    [where muxer = "0x1000" and h = "[0x1000 \<mapsto> \<lparr>mImpl = [] :: recorded\<rparr>]"
       and m = "\<lparr>mImpl = []\<rparr>" and mem = "\<lambda>a. ucast (a AND 0xFF)" and data = "0x2000"
       and info = "\<lparr>offset = 2, size' = 3, presentationTimeUs = 1000, flags = 0\<rparr>"
       and writeSampleData = recording_writeSampleData and trackIdx = 0
       and translate_error = "\<lambda>err. err"]
  apply (clarsimp simp: nullptr_def recording_writeSampleData_def ABuffer_bytes_def upt_rec)
  subgoal for buf
    by (cases buf) simp
  done

subsection \<open>Setting the location\<close>

lemma bitlen_0: "bitlen 0 = 0"
  by (simp add: bitlen.simps)

lemma bitlen_pos: "0 < n \<Longrightarrow> bitlen n = Suc (bitlen (n div 2))"
  by (subst bitlen.simps) simp

lemmas binary32_eval = round_binary32_def float_of_int_def float_to_int_def float_decode_def
  bitlen_0 bitlen_pos Let_def

lemma bitlen_upper: "n < 2 ^ bitlen n"
proof (induction n rule: bitlen.induct)
  case (1 n)
  show ?case
  proof (cases "n = 0")
    case True
    then show ?thesis by (simp add: bitlen_0)
  next
    case False
    with 1 have "n div 2 < 2 ^ bitlen (n div 2)"
      by simp
    then have "n < 2 * 2 ^ bitlen (n div 2)"
      by linarith
    with False show ?thesis
      by (simp add: bitlen_pos)
  qed
qed

text \<open>What \<open>round_binary32\<close> returns is a single-precision value.\<close>

lemma round_binary32_representable:
  assumes res: "round_binary32 s M E = Finite s' m q"
  shows "m < 2 ^ 24 \<and> - 149 \<le> q \<and> q \<le> 104"
proof -
  define b where "b = bitlen M"
  define q0 where "q0 = max (E + int b - 24) (- 149)"
  have Mb: "M < 2 ^ b"
    by (simp add: b_def bitlen_upper)
  have q0: "- 149 \<le> q0" "E + int b - 24 \<le> q0"
    by (simp_all add: q0_def)
  show ?thesis
  proof (cases "q0 \<le> E")
    case True
    with res have m: "m = M * 2 ^ nat (E - q0)" and q: "q = q0" "q0 \<le> 104"
      by (auto simp: round_binary32_def Let_def b_def [symmetric] q0_def [symmetric]
          split: if_splits)
    have "b + nat (E - q0) \<le> 24"
      using q0 True by simp
    then have "(2::nat) ^ (b + nat (E - q0)) \<le> 2 ^ 24"
      by (rule power_increasing) simp
    then have le: "(2::nat) ^ b * 2 ^ nat (E - q0) \<le> 2 ^ 24"
      by (simp only: power_add)
    have "M * 2 ^ nat (E - q0) < 2 ^ b * 2 ^ nat (E - q0)"
      using Mb by simp
    from this le have "M * 2 ^ nat (E - q0) < 2 ^ 24"
      by (rule less_le_trans)
    then have "m < 2 ^ 24"
      by (simp only: m)
    with q q0 show ?thesis
      by simp
  next
    case False
    define d where "d = nat (q0 - E)"
    have "b \<le> d + 24"
      using q0 False by (simp add: d_def)
    then have "(2::nat) ^ b \<le> 2 ^ (d + 24)"
      by (rule power_increasing) simp
    with Mb have "M < 2 ^ 24 * 2 ^ d"
      by (simp add: power_add mult.commute)
    then have m0: "M div 2 ^ d < 2 ^ 24"
      by (simp add: less_mult_imp_div_less)
    from res False have
      "(m = 2 ^ 23 \<and> q = q0 + 1 \<and> q0 + 1 \<le> 104) \<or>
       (m \<noteq> 2 ^ 24 \<and> (m = M div 2 ^ d \<or> m = M div 2 ^ d + 1) \<and> q = q0 \<and> q0 \<le> 104)"
      by (auto simp: round_binary32_def Let_def b_def [symmetric] q0_def [symmetric]
          d_def [symmetric] split: if_splits)
    with m0 q0 show ?thesis
      by auto
  qed
qed

lemma round_up_or_down:
  fixes M P r m0 h :: int
  assumes M: "M = m0 * P + r" and P: "P = 2 * h" and r: "0 \<le> r" "r < P"
  shows "h \<le> r \<Longrightarrow> 2 * \<bar>(m0 + 1) * P - M\<bar> \<le> P"
    and "r \<le> h \<Longrightarrow> 2 * \<bar>m0 * P - M\<bar> \<le> P"
proof -
  have up: "(m0 + 1) * P - M = P - r"
    using M by (simp add: algebra_simps)
  have down: "m0 * P - M = - r"
    using M by simp
  show "2 * \<bar>(m0 + 1) * P - M\<bar> \<le> P" if "h \<le> r"
  proof -
    have "\<bar>P - r\<bar> = P - r"
      using r by simp
    then show ?thesis
      unfolding up using P that by simp
  qed
  show "2 * \<bar>m0 * P - M\<bar> \<le> P" if "r \<le> h"
  proof -
    have "\<bar>- r\<bar> = r"
      using r by simp
    then show ?thesis
      unfolding down using P that by simp
  qed
qed

text \<open>
  And it is a nearest one: it keeps the sign; a value that needs no rounding is kept as
  it is; a rounded value is within half a unit of the last place of \<open>M * 2 ^ E\<close>
  (both sides scaled by \<open>2 ^ - E\<close>).
\<close>

lemma round_binary32_nearest:
  assumes res: "round_binary32 s M E = Finite s' m q"
  shows "s' = s \<and>
         (if q \<le> E then int m = int M * 2 ^ nat (E - q)
          else 2 * \<bar>int m * 2 ^ nat (q - E) - int M\<bar> \<le> 2 ^ nat (q - E))"
proof -
  define q0 where "q0 = max (E + int (bitlen M) - 24) (- 149)"
  show ?thesis
  proof (cases "q0 \<le> E")
    case True
    with res show ?thesis
      by (auto simp: round_binary32_def Let_def q0_def [symmetric] split: if_splits)
  next
    case False
    define d where "d = nat (q0 - E)"
    define P :: int where "P = 2 ^ d"
    define h :: int where "h = 2 ^ (d - 1)"
    define m0 where "m0 = int M div P"
    define r where "r = int M mod P"
    have d: "0 < d"
      using False by (simp add: d_def)
    have P: "P = 2 * h"
      using d by (simp add: P_def h_def flip: power_Suc)
    have M: "int M = m0 * P + r"
      using div_mult_mod_eq [of "int M" P] by (simp add: m0_def r_def)
    have r: "0 \<le> r" "r < P"
      by (simp_all add: r_def P_def)
    define up where "up \<longleftrightarrow> h < r \<or> (r = h \<and> odd m0)"
    define m' where "m' = (if up then m0 + 1 else m0)"
    have near: "2 * \<bar>m' * P - int M\<bar> \<le> P"
    proof (cases up)
      case True
      then have "h \<le> r"
        by (auto simp: up_def)
      then show ?thesis
        using round_up_or_down(1) [OF M P r] True by (simp add: m'_def)
    next
      case False
      then have "r \<le> h"
        by (auto simp: up_def)
      then show ?thesis
        using round_up_or_down(2) [OF M P r] False by (simp add: m'_def)
    qed
    have nat_m0: "int (M div 2 ^ d) = m0" and nat_r: "int (M mod 2 ^ d) = r"
      by (simp_all add: m0_def r_def P_def zdiv_int zmod_int)
    have up_nat: "up \<longleftrightarrow>
        (2 ^ (d - 1) < M mod 2 ^ d \<or> (M mod 2 ^ d = 2 ^ (d - 1) \<and> odd (M div 2 ^ d)))"
    proof -
      have "h < r \<longleftrightarrow> 2 ^ (d - 1) < M mod 2 ^ d"
        unfolding h_def nat_r [symmetric] by (metis of_nat_less_iff of_nat_numeral of_nat_power)
      moreover have "r = h \<longleftrightarrow> M mod 2 ^ d = 2 ^ (d - 1)"
        unfolding h_def nat_r [symmetric] by (metis of_nat_eq_iff of_nat_numeral of_nat_power)
      moreover have "odd m0 \<longleftrightarrow> odd (M div 2 ^ d)"
        unfolding nat_m0 [symmetric] by simp
      ultimately show ?thesis
        by (simp add: up_def)
    qed
    define mn where "mn = (if up then M div 2 ^ d + 1 else M div 2 ^ d)"
    have mn: "int mn = m'"
      by (simp add: mn_def m'_def nat_m0)
    from res False have cases:
      "(mn = 2 ^ 24 \<and> m = 2 ^ 23 \<and> q = q0 + 1 \<and> s' = s) \<or>
       (mn \<noteq> 2 ^ 24 \<and> m = mn \<and> q = q0 \<and> s' = s)"
      by (auto simp: round_binary32_def Let_def q0_def [symmetric] d_def [symmetric]
          mn_def up_nat split: if_splits)
    then show ?thesis
    proof
      assume c: "mn = 2 ^ 24 \<and> m = 2 ^ 23 \<and> q = q0 + 1 \<and> s' = s"
      then have m'24: "m' = 2 ^ 24"
        using mn by simp
      have qE: "\<not> q \<le> E" "nat (q - E) = Suc d"
        using c False by (simp_all add: d_def)
      have "int m * 2 ^ nat (q - E) = m' * P"
        using c m'24 qE by (simp add: P_def)
      moreover have "P \<le> 2 ^ nat (q - E)"
        using qE by (simp add: P_def)
      ultimately show ?thesis
        using near c qE by simp
    next
      assume c: "mn \<noteq> 2 ^ 24 \<and> m = mn \<and> q = q0 \<and> s' = s"
      have qE: "\<not> q \<le> E" "nat (q - E) = d"
        using c False by (simp_all add: d_def)
      show ?thesis
        using near c qE mn by (simp add: P_def)
    qed
  qed
qed

lemma sint_word_of_int_in_range:
  assumes "- (2 ^ 31) \<le> v" and "v < 2 ^ 31"
  shows "sint (word_of_int v :: 32 word) = v"
  using assms by (simp add: sint_sbintrunc' signed_take_bit_int_eq_self)

lemma div_pow2_bounds:
  fixes m :: int
  shows "(m div 2 ^ d) * 2 ^ d \<le> m \<and> m < (m div 2 ^ d + 1) * 2 ^ d"
proof -
  define k where "k = m div 2 ^ d"
  define r where "r = m mod 2 ^ d"
  define p :: int where "p = 2 ^ d"
  have pos: "0 < p"
    by (simp add: p_def)
  have m: "m = k * p + r"
    using div_mult_mod_eq [of m "2 ^ d"] by (simp add: k_def r_def p_def)
  have r: "0 \<le> r" "r < p"
    using pos by (simp_all add: r_def p_def)
  have "(k + 1) * p = k * p + p"
    by (simp add: algebra_simps)
  with m r have "k * p \<le> m \<and> m < (k + 1) * p"
    by simp
  then show ?thesis
    by (simp add: k_def p_def)
qed

text \<open>The conversion to \<open>int\<close>, where it is defined, drops the fraction.\<close>

lemma float_to_int_truncates:
  assumes "float_to_int x = Inr n"
  shows "truncation_of x (sint n)"
proof (cases x)
  case (Finite s m e)
  define k where "k = (if 0 \<le> e then int m * 2 ^ nat e else int m div 2 ^ nat (- e))"
  define v where "v = (if s then - k else k)"
  from assms Finite have range: "- (2 ^ 31) \<le> v" "v < 2 ^ 31" and n: "n = word_of_int v"
    by (auto simp: float_to_int_def Let_def k_def v_def split: if_splits)
  have sn: "sint n = v"
    using range n by (simp add: sint_word_of_int_in_range)
  have k0: "0 \<le> k"
    by (simp add: k_def pos_imp_zdiv_nonneg_iff)
  have absv: "\<bar>v\<bar> = k"
    using k0 by (simp add: v_def)
  have sign: "if s then v \<le> 0 else 0 \<le> v"
    using k0 by (simp add: v_def)
  have mag: "if 0 \<le> e then k = int m * 2 ^ nat e
       else k * 2 ^ nat (- e) \<le> int m \<and> int m < (k + 1) * 2 ^ nat (- e)"
    using div_pow2_bounds [of "int m" "nat (- e)"] by (simp add: k_def)
  show ?thesis
    using sign mag by (simp add: truncation_of_def Finite sn absv)
next
  case (Infinite s)
  with assms show ?thesis by (simp add: float_to_int_def)
next
  case NaN
  with assms show ?thesis by (simp add: float_to_int_def)
qed

text \<open>
  Three products, computed: 37.5 (\<open>0x42160000\<close>) and -122.25 (\<open>0xC2F48000\<close>) times
  10000 are exact; 0.0007 as a \<open>float\<close> (\<open>0x3A378034\<close>, which is \<open>12025908 * 2 ^ - 34\<close>)
  times 10000 rounds to \<open>14680063 * 2 ^ - 21\<close>, a little less than 7.
\<close>

lemma product_of_0_0007:
  "fmul (float_decode 0x3A378034) (float_of_int 10000) = Finite False 14680063 (- 21)"
  by (simp add: binary32_eval)

lemma location_of_37_5:
  "float_to_int (fmul (float_decode 0x42160000) (float_of_int 10000)) = Inr 375000"
  by (simp add: binary32_eval)

lemma location_of_minus_122_25:
  "float_to_int (fmul (float_decode 0xC2F48000) (float_of_int 10000)) = Inr (- 1222500)"
  by (simp add: binary32_eval)

lemma location_of_0_0007:
  "float_to_int (fmul (float_decode 0x3A378034) (float_of_int 10000)) = Inr 6"
  by (simp add: binary32_eval)

text \<open>
  C8, as the claim states it: what the engine receives is the latitude in fixed point,
  with its four decimal digits. The latitude 0.0007 (the \<open>float\<close> nearest to it,
  \<open>0x3A378034\<close>) is 7 in fixed point; the engine receives 6.
\<close>

theorem setLocation_fourth_digit_counterexample:
  "AMediaMuxer_setLocation (\<lambda>err. err) recording_setLocation
       [0x1000 \<mapsto> \<lparr>mImpl = []\<rparr>] 0x1000 0x3A378034 0x3A378034
     = Inr (0, [0x1000 \<mapsto> \<lparr>mImpl = []\<rparr>, 0x1000 \<mapsto> \<lparr>mImpl = [(6, 6)]\<rparr>]) \<and>
   fixed_point_4 (float_decode 0x3A378034) 7 \<and>
   \<not> fixed_point_4 (float_decode 0x3A378034) (sint (6 :: 32 word))"
proof -
  have "AMediaMuxer_setLocation (\<lambda>err. err) recording_setLocation
       [0x1000 \<mapsto> \<lparr>mImpl = []\<rparr>] 0x1000 0x3A378034 0x3A378034
     = Inr (0, [0x1000 \<mapsto> \<lparr>mImpl = []\<rparr>, 0x1000 \<mapsto> \<lparr>mImpl = [(6, 6)]\<rparr>])"
    by (simp add: AMediaMuxer_setLocation_def deref_def nullptr_def location_of_0_0007
        recording_setLocation_def)
  moreover have "fixed_point_4 (float_decode 0x3A378034) 7"
    by (simp add: fixed_point_4_def float_decode_def)
  moreover have "\<not> fixed_point_4 (float_decode 0x3A378034) (sint (6 :: 32 word))"
    by (simp add: fixed_point_4_def float_decode_def)
  ultimately show ?thesis
    by (intro conjI)
qed

text \<open>
  C8, amended. For a live handle and every latitude and longitude whose products with
  10000 have an integer part that fits an \<open>int\<close>: the engine's \<open>setLocation\<close> receives
  the single-precision product of the latitude and 10000 and that of the longitude and
  10000, each without its fraction (truncated, not rounded, so the fourth decimal digit
  is not always kept), and the result is the engine's status translated, with the
  engine's new state kept in the handle.
\<close>

theorem AMediaMuxer_setLocation_forwards:
  assumes "muxer \<noteq> nullptr" and "h muxer = Some m"
    and "float_to_int (fmul (float_decode latitude) (float_of_int 10000)) = Inr lat"
    and "float_to_int (fmul (float_decode longtitude) (float_of_int 10000)) = Inr lon"
  shows "truncation_of (fmul (float_decode latitude) (float_of_int 10000)) (sint lat) \<and>
     truncation_of (fmul (float_decode longtitude) (float_of_int 10000)) (sint lon) \<and>
     (\<exists>err e'. setLocation (mImpl m) lat lon = (err, e') \<and>
        AMediaMuxer_setLocation translate_error setLocation h muxer latitude longtitude
          = Inr (translate_error err, h(muxer \<mapsto> m\<lparr>mImpl := e'\<rparr>)))"
proof -
  obtain err e' where r: "setLocation (mImpl m) lat lon = (err, e')"
    by (cases "setLocation (mImpl m) lat lon")
  have "deref h muxer = Inr m"
    using assms(1,2) by (simp add: deref_def)
  then have "AMediaMuxer_setLocation translate_error setLocation h muxer latitude longtitude
          = Inr (translate_error err, h(muxer \<mapsto> m\<lparr>mImpl := e'\<rparr>))"
    using assms(3,4) r by (simp add: AMediaMuxer_setLocation_def)
  with r float_to_int_truncates [OF assms(3)] float_to_int_truncates [OF assms(4)]
  show ?thesis
    by blast
qed

theorem AMediaMuxer_setLocation_forwards_witness:
  "AMediaMuxer_setLocation (\<lambda>err. err) recording_setLocation
       [0x1000 \<mapsto> \<lparr>mImpl = []\<rparr>] 0x1000 0x42160000 0xC2F48000
     = Inr (0, [0x1000 \<mapsto> \<lparr>mImpl = []\<rparr>, 0x1000 \<mapsto> \<lparr>mImpl = [(375000, - 1222500)]\<rparr>])"
  using AMediaMuxer_setLocation_forwards
    [where muxer = "0x1000" and h = "[0x1000 \<mapsto> \<lparr>mImpl = []\<rparr>]" and m = "\<lparr>mImpl = []\<rparr>"
       and latitude = "0x42160000" and longtitude = "0xC2F48000"
       and lat = 375000 and lon = "- 1222500"
       and setLocation = recording_setLocation and translate_error = "\<lambda>err. err",
     OF _ _ location_of_37_5 location_of_minus_122_25]
  by (auto simp: nullptr_def recording_setLocation_def)

section \<open>Theorems: the media extractor service package\<close>

lemma arch_srcs_mediaextractor_policy:
  "arch_srcs mediaextractor_policy =
     [(''arm'', ''seccomp_policy/mediaextractor-arm.policy''),
      (''arm64'', ''seccomp_policy/mediaextractor-arm64.policy''),
      (''riscv64'', ''seccomp_policy/mediaextractor-riscv64.policy''),
      (''x86'', ''seccomp_policy/mediaextractor-x86.policy''),
      (''x86_64'', ''seccomp_policy/mediaextractor-x86_64.policy'')]"
  by (simp add: arch_srcs_def bp_property_def mediaextractor_policy_def variant_src_def)

lemma only_prebuilt_etc:
  "filter (\<lambda>m. module_type m = ''prebuilt_etc'') Android_bp = [mediaextractor_policy]"
  by (simp add: Android_bp_def package_mediaextractor_def license_mediaextractor_def
      libmediaextractorservice_def mediaextractor_def mediaextractor_policy_def
      package_audiopolicy_def libaudiopolicyservice_def)

lemma arch_srcs_Android_bp:
  "concat (map arch_srcs Android_bp) = arch_srcs mediaextractor_policy"
  by (simp add: Android_bp_def arch_srcs_def bp_property_def package_mediaextractor_def
      license_mediaextractor_def libmediaextractorservice_def mediaextractor_def
      package_audiopolicy_def libaudiopolicyservice_def)

lemma sub_dir_of_variants:
  "map (variant_property ''sub_dir'' mediaextractor_policy)
       [''arm'', ''arm64'', ''riscv64'', ''x86'', ''x86_64'']
     = replicate 5 (Some (BpString ''seccomp_policy''))"
  by (simp add: variant_property_def bp_property_def mediaextractor_policy_def
      numeral_eq_Suc)

text \<open>
  C9. The package has one module of policy files, \<open>mediaextractor.policy\<close>, which the
  service executable requires. It names a policy file for each of exactly five
  architectures, arm, arm64, riscv64, x86 and x86_64 (two of 32 bits, three of 64), and
  no other module of the file names any. Every variant is installed under the
  sub-directory \<open>seccomp_policy\<close>, and the module requires \<open>crash_dump.policy\<close> and
  \<open>code_coverage.policy\<close>.
\<close>

theorem mediaextractor_policy_files:
  "filter (\<lambda>m. module_type m = ''prebuilt_etc'') Android_bp = [mediaextractor_policy] \<and>
   bp_name mediaextractor_policy = Some ''mediaextractor.policy'' \<and>
   string_list_property ''required'' mediaextractor = [''mediaextractor.policy''] \<and>
   arch_srcs mediaextractor_policy =
     [(''arm'', ''seccomp_policy/mediaextractor-arm.policy''),
      (''arm64'', ''seccomp_policy/mediaextractor-arm64.policy''),
      (''riscv64'', ''seccomp_policy/mediaextractor-riscv64.policy''),
      (''x86'', ''seccomp_policy/mediaextractor-x86.policy''),
      (''x86_64'', ''seccomp_policy/mediaextractor-x86_64.policy'')] \<and>
   length (arch_srcs mediaextractor_policy) = 5 \<and>
   distinct (map snd (arch_srcs mediaextractor_policy)) \<and>
   concat (map arch_srcs Android_bp) = arch_srcs mediaextractor_policy \<and>
   map (arch_word_size \<circ> fst) (arch_srcs mediaextractor_policy) = [32, 64, 64, 32, 64] \<and>
   map (variant_property ''sub_dir'' mediaextractor_policy)
       (map fst (arch_srcs mediaextractor_policy))
     = replicate 5 (Some (BpString ''seccomp_policy'')) \<and>
   string_list_property ''required'' mediaextractor_policy
     = [''crash_dump.policy'', ''code_coverage.policy'']"
proof -
  have name: "bp_name mediaextractor_policy = Some ''mediaextractor.policy''"
    by (simp add: bp_name_def bp_property_def mediaextractor_policy_def)
  have req_bin: "string_list_property ''required'' mediaextractor = [''mediaextractor.policy'']"
    by (simp add: string_list_property_def bp_property_def mediaextractor_def)
  have req: "string_list_property ''required'' mediaextractor_policy
      = [''crash_dump.policy'', ''code_coverage.policy'']"
    by (simp add: string_list_property_def bp_property_def mediaextractor_policy_def)
  have len: "length (arch_srcs mediaextractor_policy) = 5"
    by (simp add: arch_srcs_mediaextractor_policy)
  have dist: "distinct (map snd (arch_srcs mediaextractor_policy))"
    by (simp add: arch_srcs_mediaextractor_policy)
  have bits: "map (arch_word_size \<circ> fst) (arch_srcs mediaextractor_policy) = [32, 64, 64, 32, 64]"
    by (simp add: arch_srcs_mediaextractor_policy arch_word_size_def)
  have sub: "map (variant_property ''sub_dir'' mediaextractor_policy)
       (map fst (arch_srcs mediaextractor_policy))
     = replicate 5 (Some (BpString ''seccomp_policy''))"
    using sub_dir_of_variants by (simp add: arch_srcs_mediaextractor_policy)
  from only_prebuilt_etc name req_bin arch_srcs_mediaextractor_policy len dist
    arch_srcs_Android_bp bits sub req
  show ?thesis
    by (intro conjI)
qed

section \<open>Theorems: audio channel masks\<close>

lemmas legacy_literals =
  AUDIO_CHANNEL_NONE_def AUDIO_CHANNEL_INVALID_def
  AUDIO_CHANNEL_OUT_FRONT_CENTER_def AUDIO_CHANNEL_OUT_LOW_FREQUENCY_def
  AUDIO_CHANNEL_OUT_TOP_FRONT_RIGHT_def AUDIO_CHANNEL_OUT_TOP_BACK_LEFT_def
  AUDIO_CHANNEL_IN_STEREO_def AUDIO_CHANNEL_IN_6_def AUDIO_CHANNEL_IN_FRONT_PROCESSED_def
  AUDIO_CHANNEL_IN_PRESSURE_def AUDIO_CHANNEL_IN_X_AXIS_def AUDIO_CHANNEL_IN_Y_AXIS_def
  AUDIO_CHANNEL_IN_Z_AXIS_def AUDIO_CHANNEL_IN_VOICE_UPLINK_def
  AUDIO_CHANNEL_IN_VOICE_DNLINK_def AUDIO_CHANNEL_IN_VOICE_UPLINK_MONO_def
  AUDIO_CHANNEL_IN_VOICE_DNLINK_MONO_def AUDIO_CHANNEL_IN_VOICE_CALL_MONO_def

lemmas conversion_defs =
  legacy2aidl_audio_channel_mask_t_AudioChannelLayout_def legacyBitsToAidlLayout_def
  audio_channel_mask_get_representation_def audio_channel_mask_get_bits_def
  getInAudioChannelPairs_def getOutAudioChannelPairs_def getVoiceAudioChannelPairs_def
  getInAudioChannelBits_def getOutAudioChannelBits_def legacy_literals

text \<open>
  The source's comments on the two output rows of the edge-case table: the first "has the
  same numerical representation as Mask 'A'", the second as "Mask 'B'".
\<close>

lemma edge_case_masks_as_the_source_says:
  "fst (AudioChannelLayoutEdgeCase ! 3) = fst (AudioChannelLayoutEdgeCase ! 8)"
  "fst (AudioChannelLayoutEdgeCase ! 4) = fst (AudioChannelLayoutEdgeCase ! 9)"
  by (simp_all add: AudioChannelLayoutEdgeCase_def legacy_literals)

text \<open>The three voice masks of the table convert, each to its voice layout.\<close>

lemma voice_masks_convert:
  "legacy2aidl_audio_channel_mask_t_AudioChannelLayout AUDIO_CHANNEL_IN_VOICE_UPLINK_MONO True
     = Inr (voiceMask 0x4000)"
  "legacy2aidl_audio_channel_mask_t_AudioChannelLayout AUDIO_CHANNEL_IN_VOICE_DNLINK_MONO True
     = Inr (voiceMask 0x8000)"
  "legacy2aidl_audio_channel_mask_t_AudioChannelLayout AUDIO_CHANNEL_IN_VOICE_CALL_MONO True
     = Inr (voiceMask 0xC000)"
  by (simp_all add: conversion_defs)

text \<open>
  The rejection rule in general: in the input direction a positional mask with a voice
  bit converts only if it is one of the three voice masks.
\<close>

lemma voice_bits_rejected:
  assumes pos: "audio_channel_mask_get_representation legacy = 0"
    and voice: "legacy AND (AUDIO_CHANNEL_IN_VOICE_UPLINK OR AUDIO_CHANNEL_IN_VOICE_DNLINK) \<noteq> 0"
    and named: "legacy \<noteq> AUDIO_CHANNEL_IN_VOICE_UPLINK_MONO"
      "legacy \<noteq> AUDIO_CHANNEL_IN_VOICE_DNLINK_MONO"
      "legacy \<noteq> AUDIO_CHANNEL_IN_VOICE_CALL_MONO"
  shows "legacy2aidl_audio_channel_mask_t_AudioChannelLayout legacy True = Inl BAD_VALUE"
proof -
  have not_none: "legacy \<noteq> AUDIO_CHANNEL_NONE"
    using voice by (auto simp: AUDIO_CHANNEL_NONE_def)
  have not_invalid: "legacy \<noteq> AUDIO_CHANNEL_INVALID"
    using pos by (auto simp: AUDIO_CHANNEL_INVALID_def audio_channel_mask_get_representation_def)
  have not_mono: "legacy \<noteq> 0x10" and not_stereo: "legacy \<noteq> 0xC"
    using voice by (auto simp: AUDIO_CHANNEL_IN_VOICE_UPLINK_def AUDIO_CHANNEL_IN_VOICE_DNLINK_def)
  have "map_of (getInAudioChannelPairs @ getVoiceAudioChannelPairs) legacy = None"
    using not_mono not_stereo named
    by (simp add: getInAudioChannelPairs_def getVoiceAudioChannelPairs_def)
  then show ?thesis
    using not_none not_invalid pos voice
    by (simp add: legacy2aidl_audio_channel_mask_t_AudioChannelLayout_def map_add_def)
qed

text \<open>Input stereo with a voice bit: neither a named mask nor a voice mask.\<close>

lemma stereo_with_voice_rejected:
  "legacy2aidl_audio_channel_mask_t_AudioChannelLayout
     (AUDIO_CHANNEL_IN_STEREO OR AUDIO_CHANNEL_IN_VOICE_UPLINK) True = Inl BAD_VALUE"
  "legacy2aidl_audio_channel_mask_t_AudioChannelLayout
     (AUDIO_CHANNEL_IN_STEREO OR AUDIO_CHANNEL_IN_VOICE_DNLINK) True = Inl BAD_VALUE"
  by (simp_all add: conversion_defs)

text \<open>
  The 6-channel input mask: left, right, back and front map, the two processed bits
  (\<open>0x40\<close>, \<open>0x80\<close>) are left over.
\<close>

lemma in_6_leftover:
  "legacyBitsToAidlLayout AUDIO_CHANNEL_IN_6 True = 0"
  "legacyBitsToAidlLayout (AUDIO_CHANNEL_IN_6 OR AUDIO_CHANNEL_IN_FRONT_PROCESSED) True = 0"
  by (simp_all add: conversion_defs)

lemma in_6_rejected:
  "legacy2aidl_audio_channel_mask_t_AudioChannelLayout AUDIO_CHANNEL_IN_6 True = Inl BAD_VALUE"
  "legacy2aidl_audio_channel_mask_t_AudioChannelLayout
     (AUDIO_CHANNEL_IN_6 OR AUDIO_CHANNEL_IN_FRONT_PROCESSED) True = Inl BAD_VALUE"
  by (simp_all add: conversion_defs)

lemma sensor_channels_rejected:
  "legacy2aidl_audio_channel_mask_t_AudioChannelLayout
     (AUDIO_CHANNEL_IN_PRESSURE OR AUDIO_CHANNEL_IN_X_AXIS OR AUDIO_CHANNEL_IN_Y_AXIS OR
      AUDIO_CHANNEL_IN_Z_AXIS) True = Inl BAD_VALUE"
  by (simp add: conversion_defs)

lemma output_masks_convert:
  "legacy2aidl_audio_channel_mask_t_AudioChannelLayout
     (AUDIO_CHANNEL_OUT_FRONT_CENTER OR AUDIO_CHANNEL_OUT_LOW_FREQUENCY OR
      AUDIO_CHANNEL_OUT_TOP_FRONT_RIGHT) False = Inr (layoutMask 0x400C)"
  "legacy2aidl_audio_channel_mask_t_AudioChannelLayout
     (AUDIO_CHANNEL_OUT_FRONT_CENTER OR AUDIO_CHANNEL_OUT_LOW_FREQUENCY OR
      AUDIO_CHANNEL_OUT_TOP_BACK_LEFT) False = Inr (layoutMask 0x800C)"
  by (simp_all add: conversion_defs)

text \<open>The whole table: every row's expectation holds.\<close>

lemma AudioChannelLayoutEdgeCase_passes:
  "list_all Legacy2Aidl AudioChannelLayoutEdgeCase"
  by (simp add: AudioChannelLayoutEdgeCase_def Legacy2Aidl_def voice_masks_convert
      stereo_with_voice_rejected in_6_rejected sensor_channels_rejected output_masks_convert)

text \<open>
  C2. Each of the five invalid legacy masks of the table fails to convert in the input
  direction: input stereo with the voice-uplink bit, input stereo with the voice-downlink
  bit, the 6-channel input mask, the 6-channel mask with the front-processed bit, and
  the four sensor bits pressure, x, y and z together.
\<close>

theorem invalid_input_masks_fail:
  "legacy2aidl_audio_channel_mask_t_AudioChannelLayout
     (AUDIO_CHANNEL_IN_STEREO OR AUDIO_CHANNEL_IN_VOICE_UPLINK) True = Inl BAD_VALUE \<and>
   legacy2aidl_audio_channel_mask_t_AudioChannelLayout
     (AUDIO_CHANNEL_IN_STEREO OR AUDIO_CHANNEL_IN_VOICE_DNLINK) True = Inl BAD_VALUE \<and>
   legacy2aidl_audio_channel_mask_t_AudioChannelLayout AUDIO_CHANNEL_IN_6 True = Inl BAD_VALUE \<and>
   legacy2aidl_audio_channel_mask_t_AudioChannelLayout
     (AUDIO_CHANNEL_IN_6 OR AUDIO_CHANNEL_IN_FRONT_PROCESSED) True = Inl BAD_VALUE \<and>
   legacy2aidl_audio_channel_mask_t_AudioChannelLayout
     (AUDIO_CHANNEL_IN_PRESSURE OR AUDIO_CHANNEL_IN_X_AXIS OR AUDIO_CHANNEL_IN_Y_AXIS OR
      AUDIO_CHANNEL_IN_Z_AXIS) True = Inl BAD_VALUE \<and>
   map fst (filter (\<lambda>(legacy, isInput, isValid). \<not> isValid) AudioChannelLayoutEdgeCase)
     = [AUDIO_CHANNEL_IN_6,
        AUDIO_CHANNEL_IN_6 OR AUDIO_CHANNEL_IN_FRONT_PROCESSED,
        AUDIO_CHANNEL_IN_PRESSURE OR AUDIO_CHANNEL_IN_X_AXIS OR AUDIO_CHANNEL_IN_Y_AXIS OR
          AUDIO_CHANNEL_IN_Z_AXIS,
        AUDIO_CHANNEL_IN_STEREO OR AUDIO_CHANNEL_IN_VOICE_UPLINK,
        AUDIO_CHANNEL_IN_STEREO OR AUDIO_CHANNEL_IN_VOICE_DNLINK]"
  by (simp add: stereo_with_voice_rejected in_6_rejected sensor_channels_rejected
      AudioChannelLayoutEdgeCase_def)

text \<open>
  C3, as the claim states it: the two valid output masks of the table are the same
  number, and each converts in the output direction. They are not the same number.
\<close>

theorem output_masks_same_pattern_counterexample:
  "\<not> (AUDIO_CHANNEL_OUT_FRONT_CENTER OR AUDIO_CHANNEL_OUT_LOW_FREQUENCY OR
        AUDIO_CHANNEL_OUT_TOP_FRONT_RIGHT
      = AUDIO_CHANNEL_OUT_FRONT_CENTER OR AUDIO_CHANNEL_OUT_LOW_FREQUENCY OR
        AUDIO_CHANNEL_OUT_TOP_BACK_LEFT \<and>
      \<not> isl (legacy2aidl_audio_channel_mask_t_AudioChannelLayout
        (AUDIO_CHANNEL_OUT_FRONT_CENTER OR AUDIO_CHANNEL_OUT_LOW_FREQUENCY OR
         AUDIO_CHANNEL_OUT_TOP_FRONT_RIGHT) False) \<and>
      \<not> isl (legacy2aidl_audio_channel_mask_t_AudioChannelLayout
        (AUDIO_CHANNEL_OUT_FRONT_CENTER OR AUDIO_CHANNEL_OUT_LOW_FREQUENCY OR
         AUDIO_CHANNEL_OUT_TOP_BACK_LEFT) False))"
  by (simp add: legacy_literals)

text \<open>
  C3, amended. The two valid output masks of the table differ from each other. Each is
  the same number as one of the table's invalid input masks, as the source's comments
  say: the mask with top-front-right as mask A (input stereo with voice uplink), the
  mask with top-back-left as mask B (input stereo with voice downlink). And each
  converts in the output direction, to the layout of its three flags: in the interface
  front center is \<open>0x4\<close>, low frequency \<open>0x8\<close>, top front right \<open>0x4000\<close> and top back
  left \<open>0x8000\<close>.
\<close>

theorem output_masks_collide_with_input_masks:
  "AUDIO_CHANNEL_OUT_FRONT_CENTER OR AUDIO_CHANNEL_OUT_LOW_FREQUENCY OR
     AUDIO_CHANNEL_OUT_TOP_FRONT_RIGHT
     \<noteq> AUDIO_CHANNEL_OUT_FRONT_CENTER OR AUDIO_CHANNEL_OUT_LOW_FREQUENCY OR
       AUDIO_CHANNEL_OUT_TOP_BACK_LEFT \<and>
   AUDIO_CHANNEL_OUT_FRONT_CENTER OR AUDIO_CHANNEL_OUT_LOW_FREQUENCY OR
     AUDIO_CHANNEL_OUT_TOP_FRONT_RIGHT
     = AUDIO_CHANNEL_IN_STEREO OR AUDIO_CHANNEL_IN_VOICE_UPLINK \<and>
   AUDIO_CHANNEL_OUT_FRONT_CENTER OR AUDIO_CHANNEL_OUT_LOW_FREQUENCY OR
     AUDIO_CHANNEL_OUT_TOP_BACK_LEFT
     = AUDIO_CHANNEL_IN_STEREO OR AUDIO_CHANNEL_IN_VOICE_DNLINK \<and>
   legacy2aidl_audio_channel_mask_t_AudioChannelLayout
     (AUDIO_CHANNEL_OUT_FRONT_CENTER OR AUDIO_CHANNEL_OUT_LOW_FREQUENCY OR
      AUDIO_CHANNEL_OUT_TOP_FRONT_RIGHT) False = Inr (layoutMask 0x400C) \<and>
   legacy2aidl_audio_channel_mask_t_AudioChannelLayout
     (AUDIO_CHANNEL_OUT_FRONT_CENTER OR AUDIO_CHANNEL_OUT_LOW_FREQUENCY OR
      AUDIO_CHANNEL_OUT_TOP_BACK_LEFT) False = Inr (layoutMask 0x800C)"
proof -
  have "AUDIO_CHANNEL_OUT_FRONT_CENTER OR AUDIO_CHANNEL_OUT_LOW_FREQUENCY OR
      AUDIO_CHANNEL_OUT_TOP_FRONT_RIGHT
      \<noteq> AUDIO_CHANNEL_OUT_FRONT_CENTER OR AUDIO_CHANNEL_OUT_LOW_FREQUENCY OR
        AUDIO_CHANNEL_OUT_TOP_BACK_LEFT"
    by (simp add: legacy_literals)
  moreover have "AUDIO_CHANNEL_OUT_FRONT_CENTER OR AUDIO_CHANNEL_OUT_LOW_FREQUENCY OR
      AUDIO_CHANNEL_OUT_TOP_FRONT_RIGHT
      = AUDIO_CHANNEL_IN_STEREO OR AUDIO_CHANNEL_IN_VOICE_UPLINK"
    by (simp add: legacy_literals)
  moreover have "AUDIO_CHANNEL_OUT_FRONT_CENTER OR AUDIO_CHANNEL_OUT_LOW_FREQUENCY OR
      AUDIO_CHANNEL_OUT_TOP_BACK_LEFT
      = AUDIO_CHANNEL_IN_STEREO OR AUDIO_CHANNEL_IN_VOICE_DNLINK"
    by (simp add: legacy_literals)
  ultimately show ?thesis
    using output_masks_convert by (intro conjI)
qed

end
